theory Spec2Isabelle
  imports Main "HOL-Library.Word" "HOL-Library.Signed_Division"
begin

unbundle bit_operations_syntax

section \<open>The C++ data of FileMap.cpp\<close>

text \<open>
  The model is the build of \<^verbatim>\<open>FileMap.cpp\<close> that is not \<^verbatim>\<open>__MINGW32__\<close> (the
  \<^verbatim>\<open>mmap\<close> branch), on an LP64 target: \<^verbatim>\<open>int\<close> has 32 bits, \<^verbatim>\<open>long\<close>,
  \<^verbatim>\<open>size_t\<close>, \<^verbatim>\<open>off64_t\<close> and pointers have 64. Unsigned arithmetic and pointer
  arithmetic wrap around, as word arithmetic does. \<^verbatim>\<open>assert\<close> is compiled in
  (\<^verbatim>\<open>NDEBUG\<close> is not defined by the file), so a failed assertion aborts the call.
\<close>

type_synonym cint = "32 word"
type_synonym long = "64 word"
type_synonym size_t = "64 word"
type_synonym off64_t = "64 word"
type_synonym ptr = "64 word"

abbreviation NULL :: ptr where
  "NULL \<equiv> 0"

text \<open>
  The constants of \<^verbatim>\<open><sys/mman.h>\<close>, which is not part of the repository, with their
  Linux (bionic) values. \<^verbatim>\<open>MAP_FAILED\<close> is \<^verbatim>\<open>(void *) -1\<close>.
\<close>

definition MAP_FAILED :: ptr where
  "MAP_FAILED = - 1"

definition PROT_READ :: cint where
  "PROT_READ = 1"

definition PROT_WRITE :: cint where
  "PROT_WRITE = 2"

definition MAP_SHARED :: cint where
  "MAP_SHARED = 1"

definition MADV_NORMAL :: cint where
  "MADV_NORMAL = 0"

definition MADV_RANDOM :: cint where
  "MADV_RANDOM = 1"

definition MADV_SEQUENTIAL :: cint where
  "MADV_SEQUENTIAL = 2"

definition MADV_WILLNEED :: cint where
  "MADV_WILLNEED = 3"

definition MADV_DONTNEED :: cint where
  "MADV_DONTNEED = 4"

text \<open>
  The six data members of a \<^verbatim>\<open>FileMap\<close> (the two further members of the MinGW build
  are not part of this build). \<^verbatim>\<open>mFileName\<close> is a \<^verbatim>\<open>char *\<close> to a string the object
  owns, \<^verbatim>\<open>mBasePtr\<close> and \<^verbatim>\<open>mDataPtr\<close> are \<^verbatim>\<open>void *\<close>.
\<close>

record FileMap =
  mFileName :: ptr
  mBasePtr :: ptr
  mBaseLength :: size_t
  mDataOffset :: off64_t
  mDataPtr :: ptr
  mDataLength :: size_t

text \<open>
  \<^verbatim>\<open>enum MapAdvice\<close> of \<^verbatim>\<open>FileMap.h\<close>. \<open>INVALID_ADVICE\<close> stands for a value of the
  enumeration type that is none of its five enumerators (a cast integer): the
  \<^verbatim>\<open>default:\<close> label of \<^verbatim>\<open>advise\<close> is there for it.
\<close>

datatype MapAdvice = NORMAL | RANDOM | SEQUENTIAL | WILLNEED | DONTNEED | INVALID_ADVICE cint

section \<open>The process: objects, the static page size, and the calls made\<close>

text \<open>
  Every call the code makes to the C library or the kernel is recorded, with its arguments
  and the value it returned, in the order the calls were made. What such a call returns is
  not decided by the code: each operation takes the values its calls return as arguments.
  A log macro is recorded with its priority and its format string (without the final
  newline).
\<close>

datatype priority = LOGV | LOGW | LOGE

datatype event =
    Sysconf_PAGESIZE long
  | Mmap ptr size_t cint cint cint off64_t ptr
  | Munmap ptr size_t cint
  | Madvise ptr size_t cint cint
  | Strdup string ptr
  | Free ptr
  | Log priority string

text \<open>
  Objects live in a store indexed by their address, so that \<^verbatim>\<open>this\<close> and \<^verbatim>\<open>other\<close> may
  be the same object. \<open>mPageSize\<close> is the static member shared by all objects; it starts
  as \<open>-1\<close>.
\<close>

type_synonym oid = nat

record process =
  mPageSize :: long
  objects :: "oid \<Rightarrow> FileMap"
  trace :: "event list"

text \<open>How a call ends: it returns a value, an \<^verbatim>\<open>assert\<close> aborts the process, or it divides
  by zero (undefined behaviour, a trap on the usual targets).\<close>

datatype 'a outcome = Returned 'a | AssertFailed | DivideByZero

definition assign :: "oid \<Rightarrow> (FileMap \<Rightarrow> FileMap) \<Rightarrow> process \<Rightarrow> process" where
  "assign this upd s = s\<lparr>objects := (objects s)(this := upd (objects s this))\<rparr>"

definition emit :: "event \<Rightarrow> process \<Rightarrow> process" where
  "emit e s = s\<lparr>trace := trace s @ [e]\<rparr>"

text \<open>The \<^verbatim>\<open>%\<close> of C on two signed 64-bit operands: the remainder of the division that
  truncates towards zero. The divisor is not zero where the model uses it.\<close>

definition c_rem :: "64 word \<Rightarrow> 64 word \<Rightarrow> 64 word" where
  "c_rem a b = word_of_int (sint a smod sint b)"

section \<open>Construction, move and destruction\<close>

text \<open>\<^verbatim>\<open>FileMap::FileMap(void)\<close>: the initialiser list names five members;
  \<^verbatim>\<open>mDataOffset\<close> is not among them and keeps whatever the storage held.\<close>

definition FileMap_ctor :: "oid \<Rightarrow> process \<Rightarrow> process" where
  "FileMap_ctor this s0 =
    (let s1 = assign this (\<lambda>m. m\<lparr>mFileName := NULL\<rparr>) s0;
         s2 = assign this (\<lambda>m. m\<lparr>mBasePtr := NULL\<rparr>) s1;
         s3 = assign this (\<lambda>m. m\<lparr>mBaseLength := 0\<rparr>) s2;
         s4 = assign this (\<lambda>m. m\<lparr>mDataPtr := NULL\<rparr>) s3;
         s5 = assign this (\<lambda>m. m\<lparr>mDataLength := 0\<rparr>) s4
     in s5)"

text \<open>\<^verbatim>\<open>FileMap::FileMap(FileMap &&other)\<close>: six members initialised from \<^verbatim>\<open>other\<close>,
  then three pointers of \<^verbatim>\<open>other\<close> set to \<^verbatim>\<open>NULL\<close>.\<close>

definition FileMap_move_ctor :: "oid \<Rightarrow> oid \<Rightarrow> process \<Rightarrow> process" where
  "FileMap_move_ctor this other s0 =
    (let s1 = assign this (\<lambda>m. m\<lparr>mFileName := mFileName (objects s0 other)\<rparr>) s0;
         s2 = assign this (\<lambda>m. m\<lparr>mBasePtr := mBasePtr (objects s1 other)\<rparr>) s1;
         s3 = assign this (\<lambda>m. m\<lparr>mBaseLength := mBaseLength (objects s2 other)\<rparr>) s2;
         s4 = assign this (\<lambda>m. m\<lparr>mDataOffset := mDataOffset (objects s3 other)\<rparr>) s3;
         s5 = assign this (\<lambda>m. m\<lparr>mDataPtr := mDataPtr (objects s4 other)\<rparr>) s4;
         s6 = assign this (\<lambda>m. m\<lparr>mDataLength := mDataLength (objects s5 other)\<rparr>) s5;
         s7 = assign other (\<lambda>m. m\<lparr>mFileName := NULL\<rparr>) s6;
         s8 = assign other (\<lambda>m. m\<lparr>mBasePtr := NULL\<rparr>) s7;
         s9 = assign other (\<lambda>m. m\<lparr>mDataPtr := NULL\<rparr>) s8
     in s9)"

text \<open>\<^verbatim>\<open>FileMap &FileMap::operator=(FileMap &&other)\<close>: the same nine assignments, on an
  object that exists already. It returns \<^verbatim>\<open>*this\<close>.\<close>

definition operator_assign :: "oid \<Rightarrow> oid \<Rightarrow> process \<Rightarrow> process" where
  "operator_assign this other s0 =
    (let s1 = assign this (\<lambda>m. m\<lparr>mFileName := mFileName (objects s0 other)\<rparr>) s0;
         s2 = assign this (\<lambda>m. m\<lparr>mBasePtr := mBasePtr (objects s1 other)\<rparr>) s1;
         s3 = assign this (\<lambda>m. m\<lparr>mBaseLength := mBaseLength (objects s2 other)\<rparr>) s2;
         s4 = assign this (\<lambda>m. m\<lparr>mDataOffset := mDataOffset (objects s3 other)\<rparr>) s3;
         s5 = assign this (\<lambda>m. m\<lparr>mDataPtr := mDataPtr (objects s4 other)\<rparr>) s4;
         s6 = assign this (\<lambda>m. m\<lparr>mDataLength := mDataLength (objects s5 other)\<rparr>) s5;
         s7 = assign other (\<lambda>m. m\<lparr>mFileName := NULL\<rparr>) s6;
         s8 = assign other (\<lambda>m. m\<lparr>mBasePtr := NULL\<rparr>) s7;
         s9 = assign other (\<lambda>m. m\<lparr>mDataPtr := NULL\<rparr>) s8
     in s9)"

text \<open>\<^verbatim>\<open>FileMap::~FileMap(void)\<close>: \<^verbatim>\<open>free\<close> of the name when it is not \<^verbatim>\<open>NULL\<close>, then
  \<^verbatim>\<open>munmap\<close> when \<^verbatim>\<open>mBasePtr\<close> is not \<^verbatim>\<open>NULL\<close>. The log of a failed \<^verbatim>\<open>munmap\<close> is
  commented out in the source, so the value \<^verbatim>\<open>munmap\<close> returns changes nothing.\<close>

definition FileMap_dtor :: "oid \<Rightarrow> cint \<Rightarrow> process \<Rightarrow> process" where
  "FileMap_dtor this munmap_ret s0 =
    (let s1 = (if mFileName (objects s0 this) \<noteq> NULL
               then emit (Free (mFileName (objects s0 this))) s0
               else s0);
         s2 = (if mBasePtr (objects s1 this) \<noteq> NULL
               then emit (Munmap (mBasePtr (objects s1 this)) (mBaseLength (objects s1 this))
                            munmap_ret) s1
               else s1)
     in s2)"

section \<open>create\<close>

text \<open>
  \<^verbatim>\<open>bool FileMap::create(origFileName, fd, offset, length, readOnly)\<close>. \<open>origFileName\<close>
  is \<open>None\<close> for a \<^verbatim>\<open>NULL\<close> pointer. \<open>sysconf_ret\<close>, \<open>mmap_ret\<close> and \<open>strdup_ret\<close> are what
  \<^verbatim>\<open>sysconf(_SC_PAGESIZE)\<close>, \<^verbatim>\<open>mmap\<close> and \<^verbatim>\<open>strdup\<close> return if the call reaches them.
  \<^verbatim>\<open>adjust\<close> is an \<^verbatim>\<open>int\<close>: the remainder is cut to 32 bits, and sign-extended again
  where it is added to a 64-bit value.
\<close>

definition create ::
  "oid \<Rightarrow> string option \<Rightarrow> cint \<Rightarrow> off64_t \<Rightarrow> size_t \<Rightarrow> bool \<Rightarrow>
     long \<Rightarrow> ptr \<Rightarrow> ptr \<Rightarrow> process \<Rightarrow> bool outcome \<times> process" where
  "create this origFileName fd offset len readOnly sysconf_ret mmap_ret strdup_ret s0 =
    (if \<not> 0 \<le> sint fd then (AssertFailed, s0)
     else if \<not> 0 \<le> sint offset then (AssertFailed, s0)
     else if \<not> 0 < len then (AssertFailed, s0)
     else
       case (if mPageSize s0 = - 1
             then (let s1 = (emit (Sysconf_PAGESIZE sysconf_ret) s0)\<lparr>mPageSize := sysconf_ret\<rparr>
                   in if mPageSize s1 = - 1
                      then Inl (emit (Log LOGE ''could not get _SC_PAGESIZE'') s1)
                      else Inr s1)
             else Inr s0) of
         Inl s \<Rightarrow> (Returned False, s)
       | Inr s1 \<Rightarrow>
           if mPageSize s1 = 0 then (DivideByZero, s1)
           else
             let adjust = (ucast (c_rem offset (mPageSize s1)) :: cint);
                 adjOffset = offset - scast adjust;
                 adjLength = len + scast adjust;
                 flags = MAP_SHARED;
                 prot = (if \<not> readOnly then PROT_READ OR PROT_WRITE else PROT_READ);
                 ptr = mmap_ret;
                 s2 = emit (Mmap NULL adjLength prot flags fd adjOffset ptr) s1
             in if ptr = MAP_FAILED
                then (Returned False, emit (Log LOGE ''mmap(%lld,%zu) failed: %s'') s2)
                else
                  let s3 = assign this (\<lambda>m. m\<lparr>mBasePtr := ptr\<rparr>) s2;
                      s4 = (case origFileName of
                              Some name \<Rightarrow>
                                assign this (\<lambda>m. m\<lparr>mFileName := strdup_ret\<rparr>)
                                  (emit (Strdup name strdup_ret) s3)
                            | None \<Rightarrow> assign this (\<lambda>m. m\<lparr>mFileName := NULL\<rparr>) s3);
                      s5 = assign this (\<lambda>m. m\<lparr>mBaseLength := adjLength\<rparr>) s4;
                      s6 = assign this (\<lambda>m. m\<lparr>mDataOffset := offset\<rparr>) s5;
                      s7 = assign this
                             (\<lambda>m. m\<lparr>mDataPtr := mBasePtr (objects s6 this) + scast adjust\<rparr>) s6;
                      s8 = assign this (\<lambda>m. m\<lparr>mDataLength := len\<rparr>) s7
                  in if mBasePtr (objects s8 this) = NULL then (AssertFailed, s8)
                     else (Returned True,
                           emit (Log LOGV ''MAP: base %p/%zu data %p/%zu'') s8))"

section \<open>advise\<close>

text \<open>The \<^verbatim>\<open>switch\<close> of \<^verbatim>\<open>advise\<close>: \<open>None\<close> is its \<^verbatim>\<open>default:\<close> label.\<close>

fun sysAdvice_of :: "MapAdvice \<Rightarrow> cint option" where
  "sysAdvice_of NORMAL = Some MADV_NORMAL"
| "sysAdvice_of RANDOM = Some MADV_RANDOM"
| "sysAdvice_of SEQUENTIAL = Some MADV_SEQUENTIAL"
| "sysAdvice_of WILLNEED = Some MADV_WILLNEED"
| "sysAdvice_of DONTNEED = Some MADV_DONTNEED"
| "sysAdvice_of (INVALID_ADVICE v) = None"

text \<open>\<^verbatim>\<open>int FileMap::advise(MapAdvice advice)\<close> where \<^verbatim>\<open>_WIN32\<close> is not defined.
  \<open>madvise_ret\<close> is what \<^verbatim>\<open>madvise\<close> returns.\<close>

definition advise :: "oid \<Rightarrow> MapAdvice \<Rightarrow> cint \<Rightarrow> process \<Rightarrow> cint outcome \<times> process" where
  "advise this advice madvise_ret s0 =
    (case sysAdvice_of advice of
       None \<Rightarrow> (AssertFailed, s0)
     | Some sysAdvice \<Rightarrow>
         let cc = madvise_ret;
             s1 = emit (Madvise (mBasePtr (objects s0 this)) (mBaseLength (objects s0 this))
                          sysAdvice cc) s0;
             s2 = (if cc \<noteq> 0 then emit (Log LOGW ''madvise(%d) failed: %s'') s1 else s1)
         in (Returned cc, s2))"

text \<open>The \<^verbatim>\<open>advise\<close> of the \<^verbatim>\<open>_WIN32\<close> build: \<^verbatim>\<open>return -1\<close>.\<close>

definition advise_WIN32 :: "oid \<Rightarrow> MapAdvice \<Rightarrow> process \<Rightarrow> cint outcome \<times> process" where
  "advise_WIN32 this advice s0 = (Returned (- 1), s0)"

section \<open>Auxiliary notions for the statements\<close>

text \<open>The page size a call of \<open>create\<close> works with: the cached one, or what
  \<^verbatim>\<open>sysconf\<close> returns when the cache still holds \<open>-1\<close>.\<close>

definition resolved_page_size :: "long \<Rightarrow> process \<Rightarrow> long" where
  "resolved_page_size sysconf_ret s = (if mPageSize s = - 1 then sysconf_ret else mPageSize s)"

text \<open>The calls that give a resource back: \<^verbatim>\<open>munmap\<close> and \<^verbatim>\<open>free\<close>.\<close>

fun is_release :: "event \<Rightarrow> bool" where
  "is_release (Munmap p n r) = True"
| "is_release (Free p) = True"
| "is_release e = False"

text \<open>The process at start: \<^verbatim>\<open>long FileMap::mPageSize = -1\<close>, no call made yet, and
  zeroed storage.\<close>

definition initial_process :: process where
  "initial_process =
     \<lparr>mPageSize = - 1,
      objects = (\<lambda>_. \<lparr>mFileName = 0, mBasePtr = 0, mBaseLength = 0, mDataOffset = 0,
                         mDataPtr = 0, mDataLength = 0\<rparr>),
      trace = []\<rparr>"

text \<open>Two runs used as concrete inputs. In \<open>one_mapped\<close> object 10 is constructed and maps the
  bytes 4100 to 4149 of descriptor 3 read-only; the page size is 4096, \<^verbatim>\<open>mmap\<close> returns
  \<^verbatim>\<open>0x10000\<close> and \<^verbatim>\<open>strdup\<close> returns \<^verbatim>\<open>0x2000\<close>. In \<open>two_mapped\<close> object 20 is then
  constructed and maps the first 8192 bytes of descriptor 4 for writing; \<^verbatim>\<open>mmap\<close> returns
  \<^verbatim>\<open>0x50000\<close> and \<^verbatim>\<open>strdup\<close> returns \<^verbatim>\<open>0x6000\<close>.\<close>

definition one_mapped :: process where
  "one_mapped =
     snd (create 10 (Some ''a.apk'') 3 4100 50 True 4096 0x10000 0x2000
            (FileMap_ctor 10 initial_process))"

definition two_mapped :: process where
  "two_mapped =
     snd (create 20 (Some ''b.apk'') 4 0 8192 False 4096 0x50000 0x6000
            (FileMap_ctor 20 one_mapped))"

section \<open>Basic facts\<close>

lemma FileMap_copy_all:
  "m\<lparr>mFileName := mFileName n, mBasePtr := mBasePtr n, mBaseLength := mBaseLength n,
      mDataOffset := mDataOffset n, mDataPtr := mDataPtr n, mDataLength := mDataLength n\<rparr>
   = (n :: FileMap)"
  by (cases m, cases n) simp

lemma FileMap_all_updates:
  "(m :: FileMap)\<lparr>mBasePtr := b, mFileName := f, mBaseLength := bl, mDataOffset := d,
      mDataPtr := p, mDataLength := l\<rparr>
   = \<lparr>mFileName = f, mBasePtr = b, mBaseLength = bl, mDataOffset = d, mDataPtr = p,
      mDataLength = l\<rparr>"
  by (cases m) simp

text \<open>Both moves amount to two stores: \<open>this\<close> receives the record of \<open>other\<close>, then
  \<open>other\<close> loses its three pointers. The second store wins when the two are one object.\<close>

lemma operator_assign_eq:
  "operator_assign this other s =
     s\<lparr>objects := (objects s)
         (this := objects s other,
          other := (objects s other)\<lparr>mFileName := NULL, mBasePtr := NULL, mDataPtr := NULL\<rparr>)\<rparr>"
proof (cases "this = other")
  case True
  then show ?thesis
    by (simp add: operator_assign_def assign_def Let_def)
next
  case False
  then show ?thesis
    by (simp add: operator_assign_def assign_def Let_def FileMap_copy_all fun_upd_twist)
qed

lemma FileMap_move_ctor_eq:
  "FileMap_move_ctor this other s = operator_assign this other s"
  by (simp add: FileMap_move_ctor_def operator_assign_def)

lemma FileMap_dtor_trace:
  "FileMap_dtor this r s =
     s\<lparr>trace := trace s
        @ (if mFileName (objects s this) \<noteq> NULL then [Free (mFileName (objects s this))] else [])
        @ (if mBasePtr (objects s this) \<noteq> NULL
           then [Munmap (mBasePtr (objects s this)) (mBaseLength (objects s this)) r] else [])\<rparr>"
  by (simp add: FileMap_dtor_def emit_def Let_def)

lemma FileMap_dtor_empty:
  "mFileName (objects s this) = NULL \<Longrightarrow> mBasePtr (objects s this) = NULL
     \<Longrightarrow> FileMap_dtor this r s = s"
  by (simp add: FileMap_dtor_def Let_def)

lemma FileMap_ctor_empty:
  "mFileName (objects (FileMap_ctor this s) this) = NULL
   \<and> mBasePtr (objects (FileMap_ctor this s) this) = NULL"
  by (simp add: FileMap_ctor_def assign_def Let_def)

text \<open>For an offset that is not negative and a positive page size of at most \<open>2 ^ 31\<close>, the
  \<^verbatim>\<open>int adjust\<close> of \<open>create\<close>, widened again, is the remainder of the mathematical
  division.\<close>

lemma adjust_mod:
  assumes "0 \<le> sint (offset :: 64 word)" and "0 < sint (ps :: 64 word)" and "sint ps \<le> 2 ^ 31"
  shows "(scast (ucast (c_rem offset ps) :: 32 word) :: 64 word)
           = word_of_int (sint offset mod sint ps)"
proof -
  define m where "m = sint offset mod sint ps"
  have m0: "0 \<le> m"
    using assms(2) by (simp add: m_def)
  have "m < sint ps"
    using assms(2) by (simp add: m_def)
  with assms(3) have m1: "m < 2 ^ 31"
    by linarith
  have rem: "sint offset smod sint ps = m"
    using assms by (simp add: smod_int_alt_def m_def sgn_if)
  have "(ucast (word_of_int m :: 64 word) :: 32 word) = word_of_int m"
    using m0 m1 by (simp add: ucast_eq uint_word_of_int)
  moreover have "sint (word_of_int m :: 32 word) = m"
    using m0 m1 by (simp add: sint_sbintrunc' signed_take_bit_int_eq_self)
  ultimately show ?thesis
    by (simp add: c_rem_def rem scast_eq m_def [symmetric])
qed

text \<open>The five ways through \<open>create\<close>, each with the process it leaves.\<close>

lemma create_unfold:
  "create this n fd offset len ro sc mm sd s =
    (if \<not> 0 \<le> sint fd \<or> \<not> 0 \<le> sint offset \<or> len = 0 then (AssertFailed, s)
     else if mPageSize s = - 1 \<and> sc = - 1
     then (Returned False,
           s\<lparr>trace := trace s @ [Sysconf_PAGESIZE (- 1),
                                  Log LOGE ''could not get _SC_PAGESIZE'']\<rparr>)
     else
       let ps = resolved_page_size sc s;
           t1 = trace s @ (if mPageSize s = - 1 then [Sysconf_PAGESIZE sc] else []);
           adjust = (ucast (c_rem offset ps) :: cint);
           ev = Mmap NULL (len + scast adjust)
                  (if \<not> ro then PROT_READ OR PROT_WRITE else PROT_READ) MAP_SHARED fd
                  (offset - scast adjust) mm;
           s' = \<lparr>mPageSize = ps,
                 objects = (objects s)(this :=
                   \<lparr>mFileName = (case n of None \<Rightarrow> NULL | Some name \<Rightarrow> sd),
                    mBasePtr = mm, mBaseLength = len + scast adjust, mDataOffset = offset,
                    mDataPtr = mm + scast adjust, mDataLength = len\<rparr>),
                 trace = t1 @ [ev] @ (case n of None \<Rightarrow> [] | Some name \<Rightarrow> [Strdup name sd])\<rparr>
       in if ps = 0 then (DivideByZero, \<lparr>mPageSize = ps, objects = objects s, trace = t1\<rparr>)
          else if mm = MAP_FAILED
          then (Returned False,
                \<lparr>mPageSize = ps, objects = objects s,
                 trace = t1 @ [ev, Log LOGE ''mmap(%lld,%zu) failed: %s'']\<rparr>)
          else if mm = NULL then (AssertFailed, s')
          else (Returned True,
                s'\<lparr>trace := trace s' @ [Log LOGV ''MAP: base %p/%zu data %p/%zu'']\<rparr>))"
  by (cases s; cases n)
    (simp_all add: create_def Let_def assign_def emit_def resolved_page_size_def
      word_greater_zero_iff FileMap_all_updates)

lemma create_True_D:
  assumes "create this n fd offset len ro sc mm sd s = (Returned True, s')"
  shows "0 \<le> sint fd \<and> 0 \<le> sint offset \<and> len \<noteq> 0 \<and> mm \<noteq> MAP_FAILED \<and> mm \<noteq> NULL
       \<and> mPageSize s' = resolved_page_size sc s \<and> mPageSize s' \<noteq> - 1 \<and> mPageSize s' \<noteq> 0
       \<and> objects s' = (objects s)(this :=
            \<lparr>mFileName = (case n of None \<Rightarrow> NULL | Some name \<Rightarrow> sd),
             mBasePtr = mm,
             mBaseLength = len + scast (ucast (c_rem offset (mPageSize s')) :: cint),
             mDataOffset = offset,
             mDataPtr = mm + scast (ucast (c_rem offset (mPageSize s')) :: cint),
             mDataLength = len\<rparr>)"
  using assms
  by (auto simp: create_unfold Let_def resolved_page_size_def split: if_splits)

lemma create_True_I:
  assumes "0 \<le> sint fd" and "0 \<le> sint offset" and "len \<noteq> 0"
    and "resolved_page_size sc s \<noteq> - 1" and "resolved_page_size sc s \<noteq> 0"
    and "mm \<noteq> MAP_FAILED" and "mm \<noteq> NULL"
  shows "fst (create this n fd offset len ro sc mm sd s) = Returned True"
  using assms by (auto simp: create_unfold Let_def resolved_page_size_def)

lemma create_mPageSize:
  assumes "0 \<le> sint fd" and "0 \<le> sint offset" and "len \<noteq> 0"
  shows "mPageSize (snd (create this n fd offset len ro sc mm sd s)) = resolved_page_size sc s"
  using assms by (cases s) (auto simp: create_unfold Let_def resolved_page_size_def)

lemma create_trace_releases:
  "filter is_release (trace (snd (create this n fd offset len ro sc mm sd s)))
     = filter is_release (trace s)"
  by (cases n) (simp_all add: create_unfold Let_def)

lemma create_outcome_objects:
  "fst (create this n fd offset len ro sc mm sd (s\<lparr>objects := objs\<rparr>))
     = fst (create this n fd offset len ro sc mm sd s)"
  by (simp add: create_unfold Let_def resolved_page_size_def)

text \<open>The two concrete runs, evaluated.\<close>

lemma one_mapped_eq:
  "one_mapped =
     \<lparr>mPageSize = 4096,
      objects = (\<lambda>_. \<lparr>mFileName = 0, mBasePtr = 0, mBaseLength = 0, mDataOffset = 0,
                         mDataPtr = 0, mDataLength = 0\<rparr>)
        (10 := \<lparr>mFileName = 0x2000, mBasePtr = 0x10000, mBaseLength = 54, mDataOffset = 4100,
                mDataPtr = 0x10004, mDataLength = 50\<rparr>),
      trace = [Sysconf_PAGESIZE 4096, Mmap 0 54 1 1 3 4096 0x10000, Strdup ''a.apk'' 0x2000,
               Log LOGV ''MAP: base %p/%zu data %p/%zu'']\<rparr>"
  by (simp add: one_mapped_def create_def initial_process_def FileMap_ctor_def assign_def emit_def
      Let_def c_rem_def smod_int_alt_def MAP_FAILED_def MAP_SHARED_def PROT_READ_def
      PROT_WRITE_def)

lemma two_mapped_eq:
  "two_mapped =
     \<lparr>mPageSize = 4096,
      objects = (\<lambda>_. \<lparr>mFileName = 0, mBasePtr = 0, mBaseLength = 0, mDataOffset = 0,
                         mDataPtr = 0, mDataLength = 0\<rparr>)
        (10 := \<lparr>mFileName = 0x2000, mBasePtr = 0x10000, mBaseLength = 54, mDataOffset = 4100,
                mDataPtr = 0x10004, mDataLength = 50\<rparr>,
         20 := \<lparr>mFileName = 0x6000, mBasePtr = 0x50000, mBaseLength = 8192, mDataOffset = 0,
                mDataPtr = 0x50000, mDataLength = 8192\<rparr>),
      trace = [Sysconf_PAGESIZE 4096, Mmap 0 54 1 1 3 4096 0x10000, Strdup ''a.apk'' 0x2000,
               Log LOGV ''MAP: base %p/%zu data %p/%zu'',
               Mmap 0 8192 3 1 4 0 0x50000, Strdup ''b.apk'' 0x6000,
               Log LOGV ''MAP: base %p/%zu data %p/%zu'']\<rparr>"
  by (simp add: two_mapped_def one_mapped_eq create_def FileMap_ctor_def assign_def emit_def
      Let_def c_rem_def MAP_FAILED_def MAP_SHARED_def PROT_READ_def PROT_WRITE_def)

section \<open>Claims about create\<close>

text \<open>
  C7. A call of \<open>create\<close> with length 0 never returns success: \<^verbatim>\<open>assert(length > 0)\<close>
  (or one of the two assertions before it) aborts the call before the page size is looked
  up or anything is mapped, and the process is as it was.
\<close>

theorem create_zero_length_rejected:
  "create this origFileName fd offset 0 readOnly sysconf_ret mmap_ret strdup_ret s
     = (AssertFailed, s)"
  by (simp add: create_def)

text \<open>
  C3. After a successful \<open>create\<close>, with a page size that is positive and fits the
  \<^verbatim>\<open>int adjust\<close>: \<open>mBaseLength\<close> is \<open>mDataLength\<close> plus \<open>offset mod pageSize\<close>, and
  \<open>mBasePtr\<close> plus \<open>offset mod pageSize\<close> is \<open>mDataPtr\<close> (sums of \<^verbatim>\<open>size_t\<close> and of
  pointers); when the page size divides the offset, \<open>mBasePtr\<close> and \<open>mDataPtr\<close> are equal.
\<close>

theorem create_success_adjustment:
  assumes "create this origFileName fd offset len readOnly sysconf_ret mmap_ret strdup_ret s
             = (Returned True, s')"
    and "0 < sint (mPageSize s')" and "sint (mPageSize s') \<le> 2 ^ 31"
  shows "mDataLength (objects s' this) = len
       \<and> mBaseLength (objects s' this)
           = mDataLength (objects s' this) + word_of_int (sint offset mod sint (mPageSize s'))
       \<and> mBasePtr (objects s' this) + word_of_int (sint offset mod sint (mPageSize s'))
           = mDataPtr (objects s' this)
       \<and> (sint (mPageSize s') dvd sint offset
            \<longrightarrow> mBasePtr (objects s' this) = mDataPtr (objects s' this))"
proof -
  note d = create_True_D [OF assms(1)]
  from d have off: "0 \<le> sint offset"
    by simp
  have adj: "(scast (ucast (c_rem offset (mPageSize s')) :: cint) :: 64 word)
               = word_of_int (sint offset mod sint (mPageSize s'))"
    by (rule adjust_mod [OF off assms(2) assms(3)])
  from d have obj: "objects s' this =
      \<lparr>mFileName = (case origFileName of None \<Rightarrow> NULL | Some name \<Rightarrow> strdup_ret),
       mBasePtr = mmap_ret,
       mBaseLength = len + word_of_int (sint offset mod sint (mPageSize s')),
       mDataOffset = offset,
       mDataPtr = mmap_ret + word_of_int (sint offset mod sint (mPageSize s')),
       mDataLength = len\<rparr>"
    by (simp add: adj)
  show ?thesis
    by (simp add: obj)
qed

theorem create_success_adjustment_witness:
  "create 10 (Some ''a.apk'') 3 4100 50 True 4096 0x10000 0x2000 (FileMap_ctor 10 initial_process)
     = (Returned True, one_mapped)
   \<and> 0 < sint (mPageSize one_mapped) \<and> sint (mPageSize one_mapped) \<le> 2 ^ 31
   \<and> mDataLength (objects one_mapped 10) = 50
   \<and> mBaseLength (objects one_mapped 10) = mDataLength (objects one_mapped 10) + 4
   \<and> mBasePtr (objects one_mapped 10) + 4 = mDataPtr (objects one_mapped 10)"
proof -
  have run: "create 10 (Some ''a.apk'') 3 4100 50 True 4096 0x10000 0x2000
               (FileMap_ctor 10 initial_process) = (Returned True, one_mapped)"
    by (simp add: one_mapped_eq create_def initial_process_def FileMap_ctor_def assign_def
        emit_def Let_def c_rem_def smod_int_alt_def MAP_FAILED_def MAP_SHARED_def PROT_READ_def
        PROT_WRITE_def)
  have pos: "0 < sint (mPageSize one_mapped)" and small: "sint (mPageSize one_mapped) \<le> 2 ^ 31"
    by (simp_all add: one_mapped_eq)
  from create_success_adjustment [OF run pos small] run pos small show ?thesis
    by (simp add: one_mapped_eq)
qed

text \<open>
  C5. When the cached page size is still \<open>-1\<close> and \<^verbatim>\<open>sysconf\<close> returns \<open>-1\<close>, \<open>create\<close>
  returns \<open>false\<close> (it neither aborts nor traps), no object changes, and the cache is
  left at \<open>-1\<close>. The next call of \<open>create\<close> therefore asks \<^verbatim>\<open>sysconf\<close> again: the
  page size it leaves is what \<^verbatim>\<open>sysconf\<close> returns to it, and it succeeds when that value
  is a page size and \<^verbatim>\<open>mmap\<close> succeeds.
\<close>

theorem create_page_size_failure:
  assumes "0 \<le> sint fd" and "0 \<le> sint offset" and "len \<noteq> 0" and "mPageSize s = - 1"
  shows "create this origFileName fd offset len readOnly (- 1) mmap_ret strdup_ret s
           = (Returned False,
              s\<lparr>trace := trace s @ [Sysconf_PAGESIZE (- 1),
                                     Log LOGE ''could not get _SC_PAGESIZE'']\<rparr>)
       \<and> mPageSize (snd (create this origFileName fd offset len readOnly (- 1) mmap_ret
                           strdup_ret s)) = - 1
       \<and> (0 \<le> sint fd' \<and> 0 \<le> sint offset' \<and> len' \<noteq> 0
            \<longrightarrow> mPageSize (snd (create this' name' fd' offset' len' readOnly' sysconf_ret' mmap_ret'
                            strdup_ret'
                            (snd (create this origFileName fd offset len readOnly (- 1) mmap_ret
                                    strdup_ret s))))
                  = sysconf_ret'
              \<and> (sysconf_ret' \<noteq> - 1 \<and> sysconf_ret' \<noteq> 0 \<and> mmap_ret' \<noteq> MAP_FAILED
                    \<and> mmap_ret' \<noteq> NULL
                  \<longrightarrow> fst (create this' name' fd' offset' len' readOnly' sysconf_ret' mmap_ret'
                            strdup_ret'
                            (snd (create this origFileName fd offset len readOnly (- 1) mmap_ret
                                    strdup_ret s)))
                        = Returned True))"
proof -
  let ?s' = "s\<lparr>trace := trace s @ [Sysconf_PAGESIZE (- 1),
                                     Log LOGE ''could not get _SC_PAGESIZE'']\<rparr>"
  have first: "create this origFileName fd offset len readOnly (- 1) mmap_ret strdup_ret s
                 = (Returned False, ?s')"
    using assms by (simp add: create_unfold)
  have cache: "mPageSize ?s' = - 1"
    using assms(4) by simp
  have resolved: "resolved_page_size sysconf_ret' ?s' = sysconf_ret'"
    using cache by (simp add: resolved_page_size_def)
  have retry: "mPageSize (snd (create this' name' fd' offset' len' readOnly' sysconf_ret' mmap_ret'
                            strdup_ret' ?s')) = sysconf_ret'"
    if "0 \<le> sint fd'" "0 \<le> sint offset'" "len' \<noteq> 0"
    using create_mPageSize [OF that] resolved by simp
  have again: "fst (create this' name' fd' offset' len' readOnly' sysconf_ret' mmap_ret'
                            strdup_ret' ?s') = Returned True"
    if "0 \<le> sint fd'" "0 \<le> sint offset'" "len' \<noteq> 0"
      "sysconf_ret' \<noteq> - 1" "sysconf_ret' \<noteq> 0" "mmap_ret' \<noteq> MAP_FAILED" "mmap_ret' \<noteq> NULL"
    using that by (intro create_True_I) (simp_all add: resolved)
  show ?thesis
    using retry again cache by (simp add: first)
qed

theorem create_page_size_failure_witness:
  "0 \<le> sint (3 :: cint) \<and> 0 \<le> sint (4100 :: off64_t) \<and> (50 :: size_t) \<noteq> 0
   \<and> mPageSize (FileMap_ctor 10 initial_process) = - 1
   \<and> fst (create 10 (Some ''a.apk'') 3 4100 50 True (- 1) 0x10000 0x2000
            (FileMap_ctor 10 initial_process)) = Returned False
   \<and> mPageSize (snd (create 10 (Some ''a.apk'') 3 4100 50 True (- 1) 0x10000 0x2000
            (FileMap_ctor 10 initial_process))) = - 1
   \<and> mPageSize (snd (create 10 (Some ''a.apk'') 3 4100 50 True 4096 0x10000 0x2000
       (snd (create 10 (Some ''a.apk'') 3 4100 50 True (- 1) 0x10000 0x2000
              (FileMap_ctor 10 initial_process))))) = 4096
   \<and> fst (create 10 (Some ''a.apk'') 3 4100 50 True 4096 0x10000 0x2000
       (snd (create 10 (Some ''a.apk'') 3 4100 50 True (- 1) 0x10000 0x2000
              (FileMap_ctor 10 initial_process)))) = Returned True"
proof -
  have h: "0 \<le> sint (3 :: cint)" "0 \<le> sint (4100 :: off64_t)" "(50 :: size_t) \<noteq> 0"
    "mPageSize (FileMap_ctor 10 initial_process) = - 1"
    by (simp_all add: FileMap_ctor_def assign_def initial_process_def Let_def)
  note t = create_page_size_failure [OF h, where this = 10 and origFileName = "Some ''a.apk''"
      and readOnly = True and mmap_ret = "0x10000" and strdup_ret = "0x2000"
      and fd' = 3 and offset' = 4100 and len' = 50 and this' = 10
      and name' = "Some ''a.apk''" and readOnly' = True and sysconf_ret' = 4096
      and mmap_ret' = "0x10000" and strdup_ret' = "0x2000"]
  have p1: "fst (create 10 (Some ''a.apk'') 3 4100 50 True (- 1) 0x10000 0x2000
            (FileMap_ctor 10 initial_process)) = Returned False"
    using t by simp
  have p2: "(4096 :: long) \<noteq> - 1 \<and> (4096 :: long) \<noteq> 0 \<and> (0x10000 :: ptr) \<noteq> MAP_FAILED
              \<and> (0x10000 :: ptr) \<noteq> NULL"
    by (simp add: MAP_FAILED_def)
  from t h p1 p2 show ?thesis
    by blast
qed

text \<open>
  C6. When \<^verbatim>\<open>mmap\<close> returns \<^verbatim>\<open>MAP_FAILED\<close>, \<open>create\<close> returns \<open>false\<close> and no object
  is changed: the six members are what they were. The only calls made are the page size
  query (when the cache was empty), the failed \<^verbatim>\<open>mmap\<close> and the log; nothing is
  allocated, the name is not duplicated.
\<close>

theorem create_mmap_failure:
  assumes "0 \<le> sint fd" and "0 \<le> sint offset" and "len \<noteq> 0"
    and "resolved_page_size sysconf_ret s \<noteq> - 1" and "resolved_page_size sysconf_ret s \<noteq> 0"
  shows "fst (create this origFileName fd offset len readOnly sysconf_ret MAP_FAILED strdup_ret s)
           = Returned False
       \<and> objects (snd (create this origFileName fd offset len readOnly sysconf_ret MAP_FAILED
                         strdup_ret s)) = objects s
       \<and> (\<exists>adjLength prot adjOffset.
             trace (snd (create this origFileName fd offset len readOnly sysconf_ret MAP_FAILED
                           strdup_ret s))
               = trace s
                 @ (if mPageSize s = - 1 then [Sysconf_PAGESIZE sysconf_ret] else [])
                 @ [Mmap NULL adjLength prot MAP_SHARED fd adjOffset MAP_FAILED,
                    Log LOGE ''mmap(%lld,%zu) failed: %s''])"
  using assms
  by (cases "mPageSize s = - 1") (auto simp: create_unfold Let_def resolved_page_size_def)

theorem create_mmap_failure_witness:
  "0 \<le> sint (3 :: cint) \<and> 0 \<le> sint (4100 :: off64_t) \<and> (50 :: size_t) \<noteq> 0
   \<and> resolved_page_size 4096 (FileMap_ctor 10 initial_process) = 4096
   \<and> fst (create 10 (Some ''a.apk'') 3 4100 50 True 4096 MAP_FAILED 0x2000
            (FileMap_ctor 10 initial_process)) = Returned False
   \<and> objects (snd (create 10 (Some ''a.apk'') 3 4100 50 True 4096 MAP_FAILED 0x2000
            (FileMap_ctor 10 initial_process))) = objects (FileMap_ctor 10 initial_process)"
proof -
  have r: "resolved_page_size 4096 (FileMap_ctor 10 initial_process) = 4096"
    by (simp add: resolved_page_size_def FileMap_ctor_def assign_def initial_process_def Let_def)
  have h: "0 \<le> sint (3 :: cint)" "0 \<le> sint (4100 :: off64_t)" "(50 :: size_t) \<noteq> 0"
    "resolved_page_size 4096 (FileMap_ctor 10 initial_process) \<noteq> - 1"
    "resolved_page_size 4096 (FileMap_ctor 10 initial_process) \<noteq> 0"
    unfolding r by simp_all
  from create_mmap_failure [OF h, where this = 10 and origFileName = "Some ''a.apk''"
      and readOnly = True and strdup_ret = "0x2000"] h r
  show ?thesis
    by simp
qed

text \<open>
  C2. \<open>create\<close> has no guard against a second creation. Its assertions are \<^verbatim>\<open>fd >= 0\<close>,
  \<^verbatim>\<open>offset >= 0\<close> and \<^verbatim>\<open>length > 0\<close> before anything is done, and
  \<^verbatim>\<open>mBasePtr != NULL\<close> after the result of \<^verbatim>\<open>mmap\<close> has been stored; none of them looks at
  what the object held. So what \<open>create\<close> returns does not depend on what any object holds:
  it succeeds exactly when the three arguments pass, the page size in effect is neither
  \<open>-1\<close> nor 0 and \<^verbatim>\<open>mmap\<close> returns neither \<^verbatim>\<open>MAP_FAILED\<close> nor \<^verbatim>\<open>NULL\<close>, and it aborts
  exactly when an argument fails or \<^verbatim>\<open>mmap\<close> was reached and returned \<^verbatim>\<open>NULL\<close>. It never
  calls \<^verbatim>\<open>munmap\<close> or \<^verbatim>\<open>free\<close>. When it succeeds, all six members of the object are
  those of the new mapping, whatever they were before.
\<close>

theorem create_does_not_inspect_instance:
  "fst (create this origFileName fd offset len readOnly sysconf_ret mmap_ret strdup_ret
          (s\<lparr>objects := objs\<rparr>))
     = fst (create this origFileName fd offset len readOnly sysconf_ret mmap_ret strdup_ret s)
   \<and> (fst (create this origFileName fd offset len readOnly sysconf_ret mmap_ret strdup_ret s)
         = Returned True)
       = (0 \<le> sint fd \<and> 0 \<le> sint offset \<and> len \<noteq> 0
          \<and> resolved_page_size sysconf_ret s \<noteq> - 1 \<and> resolved_page_size sysconf_ret s \<noteq> 0
          \<and> mmap_ret \<noteq> MAP_FAILED \<and> mmap_ret \<noteq> NULL)
   \<and> (fst (create this origFileName fd offset len readOnly sysconf_ret mmap_ret strdup_ret s)
         = AssertFailed)
       = (sint fd < 0 \<or> sint offset < 0 \<or> len = 0
          \<or> (resolved_page_size sysconf_ret s \<noteq> - 1 \<and> resolved_page_size sysconf_ret s \<noteq> 0
              \<and> mmap_ret = NULL))
   \<and> filter is_release
         (trace (snd (create this origFileName fd offset len readOnly sysconf_ret mmap_ret
                        strdup_ret s)))
       = filter is_release (trace s)
   \<and> (fst (create this origFileName fd offset len readOnly sysconf_ret mmap_ret strdup_ret s)
         = Returned True
       \<longrightarrow> mBasePtr (objects (snd (create this origFileName fd offset len readOnly sysconf_ret
                                       mmap_ret strdup_ret s)) this) = mmap_ret
         \<and> mFileName (objects (snd (create this origFileName fd offset len readOnly sysconf_ret
                                       mmap_ret strdup_ret s)) this)
             = (case origFileName of None \<Rightarrow> NULL | Some name \<Rightarrow> strdup_ret)
         \<and> mDataOffset (objects (snd (create this origFileName fd offset len readOnly
                                         sysconf_ret mmap_ret strdup_ret s)) this) = offset
         \<and> mDataLength (objects (snd (create this origFileName fd offset len readOnly
                                         sysconf_ret mmap_ret strdup_ret s)) this) = len
         \<and> mBaseLength (objects (snd (create this origFileName fd offset len readOnly
                                         sysconf_ret mmap_ret strdup_ret s)) this)
             = len + scast (ucast (c_rem offset (resolved_page_size sysconf_ret s)) :: cint)
         \<and> mDataPtr (objects (snd (create this origFileName fd offset len readOnly
                                      sysconf_ret mmap_ret strdup_ret s)) this)
             = mmap_ret + scast (ucast (c_rem offset (resolved_page_size sysconf_ret s)) :: cint))"
proof -
  let ?c = "create this origFileName fd offset len readOnly sysconf_ret mmap_ret strdup_ret s"
  let ?adjust = "scast (ucast (c_rem offset (resolved_page_size sysconf_ret s)) :: cint) :: 64 word"
  have new: "mBasePtr (objects (snd ?c) this) = mmap_ret
         \<and> mFileName (objects (snd ?c) this)
             = (case origFileName of None \<Rightarrow> NULL | Some name \<Rightarrow> strdup_ret)
         \<and> mDataOffset (objects (snd ?c) this) = offset
         \<and> mDataLength (objects (snd ?c) this) = len
         \<and> mBaseLength (objects (snd ?c) this) = len + ?adjust
         \<and> mDataPtr (objects (snd ?c) this) = mmap_ret + ?adjust"
    if ok: "fst ?c = Returned True"
  proof -
    from ok have "?c = (Returned True, snd ?c)"
      by (metis prod.collapse)
    from create_True_D [OF this] show ?thesis
      by simp
  qed
  have success: "(fst ?c = Returned True)
       = (0 \<le> sint fd \<and> 0 \<le> sint offset \<and> len \<noteq> 0
          \<and> resolved_page_size sysconf_ret s \<noteq> - 1 \<and> resolved_page_size sysconf_ret s \<noteq> 0
          \<and> mmap_ret \<noteq> MAP_FAILED \<and> mmap_ret \<noteq> NULL)"
    by (auto simp: create_unfold Let_def resolved_page_size_def)
  have abort: "(fst ?c = AssertFailed)
       = (sint fd < 0 \<or> sint offset < 0 \<or> len = 0
          \<or> (resolved_page_size sysconf_ret s \<noteq> - 1 \<and> resolved_page_size sysconf_ret s \<noteq> 0
              \<and> mmap_ret = NULL))"
    by (auto simp: create_unfold Let_def resolved_page_size_def MAP_FAILED_def)
  have indep: "fst (create this origFileName fd offset len readOnly sysconf_ret mmap_ret strdup_ret
          (s\<lparr>objects := objs\<rparr>)) = fst ?c"
    by (rule create_outcome_objects)
  have norel: "filter is_release (trace (snd ?c)) = filter is_release (trace s)"
    by (rule create_trace_releases)
  from indep success abort norel new show ?thesis
    by blast
qed

text \<open>
  A call that shows it: object 10 of \<open>one_mapped\<close> holds the mapping at \<^verbatim>\<open>0x10000\<close>, and a
  second \<open>create\<close> on it returns \<open>true\<close>, stores the new mapping at \<^verbatim>\<open>0x50000\<close> and
  unmaps nothing.
\<close>

theorem create_on_mapped_instance_succeeds:
  "mBasePtr (objects one_mapped 10) = 0x10000
   \<and> fst (create 10 (Some ''b.apk'') 4 0 8192 False 4096 0x50000 0x6000 one_mapped)
       = Returned True
   \<and> mBasePtr (objects (snd (create 10 (Some ''b.apk'') 4 0 8192 False 4096 0x50000 0x6000
                                one_mapped)) 10) = 0x50000
   \<and> filter is_release
         (trace (snd (create 10 (Some ''b.apk'') 4 0 8192 False 4096 0x50000 0x6000 one_mapped)))
       = []"
  by (simp add: one_mapped_eq create_unfold Let_def resolved_page_size_def MAP_FAILED_def)

theorem create_does_not_inspect_instance_witness:
  "fst (create 10 (Some ''b.apk'') 4 0 8192 False 4096 0x50000 0x6000 one_mapped) = Returned True
   \<and> mBasePtr (objects (snd (create 10 (Some ''b.apk'') 4 0 8192 False 4096 0x50000 0x6000
                                one_mapped)) 10) = 0x50000
   \<and> mFileName (objects (snd (create 10 (Some ''b.apk'') 4 0 8192 False 4096 0x50000 0x6000
                                one_mapped)) 10) = 0x6000
   \<and> mDataOffset (objects (snd (create 10 (Some ''b.apk'') 4 0 8192 False 4096 0x50000 0x6000
                                one_mapped)) 10) = 0
   \<and> mDataLength (objects (snd (create 10 (Some ''b.apk'') 4 0 8192 False 4096 0x50000 0x6000
                                one_mapped)) 10) = 8192
   \<and> mBaseLength (objects (snd (create 10 (Some ''b.apk'') 4 0 8192 False 4096 0x50000 0x6000
                                one_mapped)) 10) = 8192
   \<and> mDataPtr (objects (snd (create 10 (Some ''b.apk'') 4 0 8192 False 4096 0x50000 0x6000
                                one_mapped)) 10) = 0x50000"
proof -
  let ?c = "create 10 (Some ''b.apk'') 4 0 8192 False 4096 0x50000 0x6000 one_mapped"
  have ok: "fst ?c = Returned True"
    by (simp add: one_mapped_eq create_unfold Let_def resolved_page_size_def MAP_FAILED_def)
  have adjust: "(scast (ucast (c_rem 0 (resolved_page_size 4096 one_mapped)) :: cint) :: 64 word) = 0"
    by (simp add: one_mapped_eq resolved_page_size_def c_rem_def)
  from create_does_not_inspect_instance [where this = 10 and origFileName = "Some ''b.apk''"
      and fd = 4 and offset = 0 and len = 8192 and readOnly = False and sysconf_ret = 4096
      and mmap_ret = "0x50000" and strdup_ret = "0x6000" and s = one_mapped] ok
  have members: "mBasePtr (objects (snd ?c) 10) = 0x50000
         \<and> mFileName (objects (snd ?c) 10)
             = (case Some ''b.apk'' of None \<Rightarrow> NULL | Some name \<Rightarrow> 0x6000)
         \<and> mDataOffset (objects (snd ?c) 10) = 0
         \<and> mDataLength (objects (snd ?c) 10) = 8192
         \<and> mBaseLength (objects (snd ?c) 10)
             = 8192 + scast (ucast (c_rem 0 (resolved_page_size 4096 one_mapped)) :: cint)
         \<and> mDataPtr (objects (snd ?c) 10)
             = 0x50000 + scast (ucast (c_rem 0 (resolved_page_size 4096 one_mapped)) :: cint)"
    by blast
  then have "mBasePtr (objects (snd ?c) 10) = 0x50000
         \<and> mFileName (objects (snd ?c) 10) = 0x6000
         \<and> mDataOffset (objects (snd ?c) 10) = 0
         \<and> mDataLength (objects (snd ?c) 10) = 8192
         \<and> mBaseLength (objects (snd ?c) 10) = 8192
         \<and> mDataPtr (objects (snd ?c) 10) = 0x50000"
    unfolding adjust by simp
  with ok show ?thesis
    by blast
qed

section \<open>Claims about advise\<close>

text \<open>
  C8. Each of the five hints makes \<open>advise\<close> call \<^verbatim>\<open>madvise\<close> once, on \<open>mBasePtr\<close> and
  \<open>mBaseLength\<close>, with the advice value of its own name: \<open>NORMAL\<close> with \<open>MADV_NORMAL\<close>,
  \<open>RANDOM\<close> with \<open>MADV_RANDOM\<close>, \<open>SEQUENTIAL\<close> with \<open>MADV_SEQUENTIAL\<close>, \<open>WILLNEED\<close> with
  \<open>MADV_WILLNEED\<close>, \<open>DONTNEED\<close> with \<open>MADV_DONTNEED\<close>. \<open>advise\<close> returns what the call
  returns (with a warning logged when that is not 0); no object and not the page size is
  changed. The five advice values differ from each other, so the hints are told apart.
  The \<^verbatim>\<open>_WIN32\<close> build of \<open>advise\<close> returns \<open>-1\<close> and changes nothing.
\<close>

theorem advise_hint_to_madvise:
  "advise this NORMAL madvise_ret s
     = (Returned madvise_ret,
        s\<lparr>trace := trace s
            @ [Madvise (mBasePtr (objects s this)) (mBaseLength (objects s this))
                 MADV_NORMAL madvise_ret]
            @ (if madvise_ret \<noteq> 0 then [Log LOGW ''madvise(%d) failed: %s''] else [])\<rparr>)
   \<and> advise this RANDOM madvise_ret s
     = (Returned madvise_ret,
        s\<lparr>trace := trace s
            @ [Madvise (mBasePtr (objects s this)) (mBaseLength (objects s this))
                 MADV_RANDOM madvise_ret]
            @ (if madvise_ret \<noteq> 0 then [Log LOGW ''madvise(%d) failed: %s''] else [])\<rparr>)
   \<and> advise this SEQUENTIAL madvise_ret s
     = (Returned madvise_ret,
        s\<lparr>trace := trace s
            @ [Madvise (mBasePtr (objects s this)) (mBaseLength (objects s this))
                 MADV_SEQUENTIAL madvise_ret]
            @ (if madvise_ret \<noteq> 0 then [Log LOGW ''madvise(%d) failed: %s''] else [])\<rparr>)
   \<and> advise this WILLNEED madvise_ret s
     = (Returned madvise_ret,
        s\<lparr>trace := trace s
            @ [Madvise (mBasePtr (objects s this)) (mBaseLength (objects s this))
                 MADV_WILLNEED madvise_ret]
            @ (if madvise_ret \<noteq> 0 then [Log LOGW ''madvise(%d) failed: %s''] else [])\<rparr>)
   \<and> advise this DONTNEED madvise_ret s
     = (Returned madvise_ret,
        s\<lparr>trace := trace s
            @ [Madvise (mBasePtr (objects s this)) (mBaseLength (objects s this))
                 MADV_DONTNEED madvise_ret]
            @ (if madvise_ret \<noteq> 0 then [Log LOGW ''madvise(%d) failed: %s''] else [])\<rparr>)
   \<and> map sysAdvice_of [NORMAL, RANDOM, SEQUENTIAL, WILLNEED, DONTNEED]
       = map Some [MADV_NORMAL, MADV_RANDOM, MADV_SEQUENTIAL, MADV_WILLNEED, MADV_DONTNEED]
   \<and> distinct [MADV_NORMAL, MADV_RANDOM, MADV_SEQUENTIAL, MADV_WILLNEED, MADV_DONTNEED]
   \<and> inj_on sysAdvice_of {NORMAL, RANDOM, SEQUENTIAL, WILLNEED, DONTNEED}
   \<and> advise_WIN32 this advice s = (Returned (- 1), s)"
proof -
  have differ: "distinct [MADV_NORMAL, MADV_RANDOM, MADV_SEQUENTIAL, MADV_WILLNEED, MADV_DONTNEED]"
    by (simp add: MADV_NORMAL_def MADV_RANDOM_def MADV_SEQUENTIAL_def MADV_WILLNEED_def
        MADV_DONTNEED_def)
  have inj: "inj_on sysAdvice_of {NORMAL, RANDOM, SEQUENTIAL, WILLNEED, DONTNEED}"
    using differ by simp
  have call: "advise this a madvise_ret s
            = (Returned madvise_ret,
               s\<lparr>trace := trace s
                   @ [Madvise (mBasePtr (objects s this)) (mBaseLength (objects s this))
                        v madvise_ret]
                   @ (if madvise_ret \<noteq> 0 then [Log LOGW ''madvise(%d) failed: %s''] else [])\<rparr>)"
    if "sysAdvice_of a = Some v" for a v
    using that by (simp add: advise_def Let_def emit_def)
  have win: "advise_WIN32 this advice s = (Returned (- 1), s)"
    by (simp add: advise_WIN32_def)
  have switch: "map sysAdvice_of [NORMAL, RANDOM, SEQUENTIAL, WILLNEED, DONTNEED]
       = map Some [MADV_NORMAL, MADV_RANDOM, MADV_SEQUENTIAL, MADV_WILLNEED, MADV_DONTNEED]"
    by simp
  show ?thesis
    by (intro conjI call differ inj win switch) simp_all
qed

theorem advise_hint_to_madvise_witness:
  "advise 10 WILLNEED 0 one_mapped
       = (Returned 0, one_mapped\<lparr>trace := trace one_mapped @ [Madvise 0x10000 54 MADV_WILLNEED 0]\<rparr>)
   \<and> advise 10 DONTNEED (- 1) one_mapped
       = (Returned (- 1),
          one_mapped\<lparr>trace := trace one_mapped
            @ [Madvise 0x10000 54 MADV_DONTNEED (- 1), Log LOGW ''madvise(%d) failed: %s'']\<rparr>)
   \<and> advise_WIN32 10 WILLNEED one_mapped = (Returned (- 1), one_mapped)"
proof -
  have base: "mBasePtr (objects one_mapped 10) = 0x10000"
    and blen: "mBaseLength (objects one_mapped 10) = 54"
    by (simp_all add: one_mapped_eq)
  from advise_hint_to_madvise [where this = 10 and madvise_ret = 0 and s = one_mapped
      and advice = WILLNEED]
  have will: "advise 10 WILLNEED 0 one_mapped
     = (Returned 0,
        one_mapped\<lparr>trace := trace one_mapped
            @ [Madvise (mBasePtr (objects one_mapped 10)) (mBaseLength (objects one_mapped 10))
                 MADV_WILLNEED 0]
            @ (if (0 :: cint) \<noteq> 0 then [Log LOGW ''madvise(%d) failed: %s''] else [])\<rparr>)"
    and win: "advise_WIN32 10 WILLNEED one_mapped = (Returned (- 1), one_mapped)"
    by blast+
  from advise_hint_to_madvise [where this = 10 and madvise_ret = "- 1" and s = one_mapped]
  have dont: "advise 10 DONTNEED (- 1) one_mapped
     = (Returned (- 1),
        one_mapped\<lparr>trace := trace one_mapped
            @ [Madvise (mBasePtr (objects one_mapped 10)) (mBaseLength (objects one_mapped 10))
                 MADV_DONTNEED (- 1)]
            @ (if (- 1 :: cint) \<noteq> 0 then [Log LOGW ''madvise(%d) failed: %s''] else [])\<rparr>)"
    by blast
  from will have w: "advise 10 WILLNEED 0 one_mapped
       = (Returned 0, one_mapped\<lparr>trace := trace one_mapped @ [Madvise 0x10000 54 MADV_WILLNEED 0]\<rparr>)"
    by (simp add: base blen)
  from dont have d: "advise 10 DONTNEED (- 1) one_mapped
       = (Returned (- 1),
          one_mapped\<lparr>trace := trace one_mapped
            @ [Madvise 0x10000 54 MADV_DONTNEED (- 1), Log LOGW ''madvise(%d) failed: %s'']\<rparr>)"
    by (simp add: base blen)
  from w d win show ?thesis
    by blast
qed

section \<open>Claims about move and destruction\<close>

text \<open>
  C9. The destructor of an object that was just constructed, or that was the source of a
  move construction or a move assignment, changes nothing: no \<^verbatim>\<open>munmap\<close>, no
  \<^verbatim>\<open>free\<close>, no log. The destructor of an object whose \<open>mBasePtr\<close> is not \<^verbatim>\<open>NULL\<close> frees
  the name, if the object has one, and then unmaps \<open>mBaseLength\<close> bytes at \<open>mBasePtr\<close>.
\<close>

theorem destruction_releases_iff_mapped:
  "FileMap_dtor this r (FileMap_ctor this s) = FileMap_ctor this s
   \<and> FileMap_dtor other r (FileMap_move_ctor this other s) = FileMap_move_ctor this other s
   \<and> FileMap_dtor other r (operator_assign this other s) = operator_assign this other s
   \<and> (mBasePtr (objects s this) \<noteq> NULL \<longrightarrow>
        FileMap_dtor this r s
          = s\<lparr>trace := trace s
                @ (if mFileName (objects s this) \<noteq> NULL
                   then [Free (mFileName (objects s this))] else [])
                @ [Munmap (mBasePtr (objects s this)) (mBaseLength (objects s this)) r]\<rparr>)"
proof -
  have a: "FileMap_dtor this r (FileMap_ctor this s) = FileMap_ctor this s"
    by (rule FileMap_dtor_empty) (simp_all add: FileMap_ctor_empty)
  have b: "FileMap_dtor other r (operator_assign this other s) = operator_assign this other s"
    by (rule FileMap_dtor_empty) (simp_all add: operator_assign_eq)
  have c: "mBasePtr (objects s this) \<noteq> NULL \<longrightarrow>
        FileMap_dtor this r s
          = s\<lparr>trace := trace s
                @ (if mFileName (objects s this) \<noteq> NULL
                   then [Free (mFileName (objects s this))] else [])
                @ [Munmap (mBasePtr (objects s this)) (mBaseLength (objects s this)) r]\<rparr>"
    by (simp add: FileMap_dtor_trace)
  show ?thesis
    unfolding FileMap_move_ctor_eq using a b c by blast
qed

theorem destruction_releases_iff_mapped_witness:
  "mBasePtr (objects one_mapped 10) \<noteq> NULL
   \<and> FileMap_dtor 10 0 one_mapped
       = one_mapped\<lparr>trace := trace one_mapped @ [Free 0x2000, Munmap 0x10000 54 0]\<rparr>
   \<and> FileMap_dtor 10 0 (FileMap_ctor 10 initial_process) = FileMap_ctor 10 initial_process"
proof -
  have mapped: "mBasePtr (objects one_mapped 10) \<noteq> NULL"
    by (simp add: one_mapped_eq)
  have fields: "mFileName (objects one_mapped 10) = 0x2000" "mBasePtr (objects one_mapped 10) = 0x10000"
    "mBaseLength (objects one_mapped 10) = 54"
    by (simp_all add: one_mapped_eq)
  note t = destruction_releases_iff_mapped [where this = 10 and r = 0 and s = one_mapped]
  from t mapped have "FileMap_dtor 10 0 one_mapped
          = one_mapped\<lparr>trace := trace one_mapped
                @ (if mFileName (objects one_mapped 10) \<noteq> NULL
                   then [Free (mFileName (objects one_mapped 10))] else [])
                @ [Munmap (mBasePtr (objects one_mapped 10)) (mBaseLength (objects one_mapped 10)) 0]\<rparr>"
    by blast
  then have d: "FileMap_dtor 10 0 one_mapped
       = one_mapped\<lparr>trace := trace one_mapped @ [Free 0x2000, Munmap 0x10000 54 0]\<rparr>"
    by (simp add: fields)
  from destruction_releases_iff_mapped [where this = 10 and r = 0 and s = initial_process]
  have "FileMap_dtor 10 0 (FileMap_ctor 10 initial_process) = FileMap_ctor 10 initial_process"
    by blast
  with mapped d show ?thesis
    by blast
qed

text \<open>
  C10. After a move construction or a move assignment the source has \<open>mFileName\<close>,
  \<open>mBasePtr\<close> and \<open>mDataPtr\<close> set to \<^verbatim>\<open>NULL\<close> and is otherwise what it was:
  \<open>mBaseLength\<close>, \<open>mDataOffset\<close> and \<open>mDataLength\<close> keep their values. This holds also
  when source and destination are the same object.
\<close>

theorem move_resets_source_pointers_only:
  "objects (operator_assign this other s) other
     = (objects s other)\<lparr>mFileName := NULL, mBasePtr := NULL, mDataPtr := NULL\<rparr>
   \<and> mBaseLength (objects (operator_assign this other s) other) = mBaseLength (objects s other)
   \<and> mDataOffset (objects (operator_assign this other s) other) = mDataOffset (objects s other)
   \<and> mDataLength (objects (operator_assign this other s) other) = mDataLength (objects s other)
   \<and> objects (FileMap_move_ctor this other s) other
     = (objects s other)\<lparr>mFileName := NULL, mBasePtr := NULL, mDataPtr := NULL\<rparr>
   \<and> mBaseLength (objects (FileMap_move_ctor this other s) other) = mBaseLength (objects s other)
   \<and> mDataOffset (objects (FileMap_move_ctor this other s) other) = mDataOffset (objects s other)
   \<and> mDataLength (objects (FileMap_move_ctor this other s) other) = mDataLength (objects s other)"
  by (simp add: FileMap_move_ctor_eq operator_assign_eq)

text \<open>
  C4. After a move construction or a move assignment from \<open>other\<close> to a different object
  \<open>this\<close>, the destructor of \<open>other\<close> changes nothing (no \<^verbatim>\<open>munmap\<close>, no \<^verbatim>\<open>free\<close>), and
  \<open>mDataPtr\<close> and \<open>mDataLength\<close> of \<open>this\<close> are what \<open>other\<close> held before the move.
\<close>

theorem move_transfers_and_disarms_source:
  assumes "this \<noteq> other"
  shows "FileMap_dtor other r (FileMap_move_ctor this other s) = FileMap_move_ctor this other s
       \<and> mDataPtr (objects (FileMap_move_ctor this other s) this) = mDataPtr (objects s other)
       \<and> mDataLength (objects (FileMap_move_ctor this other s) this) = mDataLength (objects s other)
       \<and> FileMap_dtor other r (operator_assign this other s) = operator_assign this other s
       \<and> mDataPtr (objects (operator_assign this other s) this) = mDataPtr (objects s other)
       \<and> mDataLength (objects (operator_assign this other s) this) = mDataLength (objects s other)"
proof -
  have d: "FileMap_dtor other r (operator_assign this other s) = operator_assign this other s"
    by (rule FileMap_dtor_empty) (simp_all add: operator_assign_eq)
  have f: "mDataPtr (objects (operator_assign this other s) this) = mDataPtr (objects s other)
       \<and> mDataLength (objects (operator_assign this other s) this) = mDataLength (objects s other)"
    using assms by (simp add: operator_assign_eq)
  show ?thesis
    unfolding FileMap_move_ctor_eq using d f by blast
qed

theorem move_transfers_and_disarms_source_witness:
  "(20 :: oid) \<noteq> 10 \<and> mBasePtr (objects one_mapped 10) \<noteq> NULL
   \<and> FileMap_dtor 10 0 (operator_assign 20 10 one_mapped) = operator_assign 20 10 one_mapped
   \<and> mDataPtr (objects (operator_assign 20 10 one_mapped) 20) = 0x10004
   \<and> mDataLength (objects (operator_assign 20 10 one_mapped) 20) = 50
   \<and> FileMap_dtor 10 0 (FileMap_move_ctor 20 10 one_mapped) = FileMap_move_ctor 20 10 one_mapped
   \<and> mDataPtr (objects (FileMap_move_ctor 20 10 one_mapped) 20) = 0x10004
   \<and> mDataLength (objects (FileMap_move_ctor 20 10 one_mapped) 20) = 50"
proof -
  have ne: "(20 :: oid) \<noteq> 10"
    by simp
  have src: "mBasePtr (objects one_mapped 10) \<noteq> NULL" "mDataPtr (objects one_mapped 10) = 0x10004"
    "mDataLength (objects one_mapped 10) = 50"
    by (simp_all add: one_mapped_eq)
  from move_transfers_and_disarms_source [OF ne, where r = 0 and s = one_mapped] ne src
  show ?thesis
    by simp
qed

text \<open>
  C1. The run \<open>two_mapped\<close>, then \<^verbatim>\<open>object10 = std::move(object20)\<close>, then both
  destructors. Before the assignment object 10 holds the mapping at \<^verbatim>\<open>0x10000\<close> and the
  name at \<^verbatim>\<open>0x2000\<close>. The assignment makes no call at all; afterwards object 10 holds the
  mapping of object 20 and object 20 holds none, so the two destructors free and unmap what
  object 20 had mapped, and nothing ever unmaps \<^verbatim>\<open>0x10000\<close> or frees \<^verbatim>\<open>0x2000\<close>.
\<close>

theorem operator_assign_leaks_destination:
  "mBasePtr (objects two_mapped 10) = 0x10000
   \<and> mFileName (objects two_mapped 10) = 0x2000
   \<and> trace (operator_assign 10 20 two_mapped) = trace two_mapped
   \<and> mBasePtr (objects (operator_assign 10 20 two_mapped) 10) = 0x50000
   \<and> mBasePtr (objects (operator_assign 10 20 two_mapped) 20) = NULL
   \<and> filter is_release
        (trace (FileMap_dtor 10 0 (FileMap_dtor 20 0 (operator_assign 10 20 two_mapped))))
       = [Free 0x6000, Munmap 0x50000 8192 0]"
  by (simp add: operator_assign_eq FileMap_dtor_trace two_mapped_eq)

end
